theory Spec2Isabelle
  imports Complex_Main
begin

section \<open>JavaScript values used by the listing pipeline\<close>

text \<open>
  A JavaScript \<open>number\<close>. The pipeline only compares numbers with literals and passes
  them on; it performs no arithmetic, so a finite double is carried as the real it denotes
  (\<open>-0\<close> and \<open>0\<close> are then the same value, and both are falsy in the source as well).
\<close>

datatype number = Num real | PosInf | NegInf | NaN

text \<open>The relational operator \<open><\<close> of the language: every comparison with \<open>NaN\<close> is false.\<close>

fun js_lt :: "number \<Rightarrow> number \<Rightarrow> bool" where
  "js_lt NaN _ = False"
| "js_lt _ NaN = False"
| "js_lt (Num a) (Num b) = (a < b)"
| "js_lt NegInf NegInf = False"
| "js_lt NegInf _ = True"
| "js_lt (Num a) PosInf = True"
| "js_lt _ _ = False"

definition js_gt :: "number \<Rightarrow> number \<Rightarrow> bool" where
  "js_gt a b = js_lt b a"

text \<open>
  \<open>v || d\<close> on an optional string and on an optional number: the default replaces every
  falsy value (\<open>null\<close>/\<open>undefined\<close>, the empty string, \<open>0\<close>, \<open>NaN\<close>).
\<close>

definition truthy_str :: "string option \<Rightarrow> bool" where
  "truthy_str v = (case v of None \<Rightarrow> False | Some s \<Rightarrow> s \<noteq> [])"

definition or_str :: "string option \<Rightarrow> string \<Rightarrow> string" where
  "or_str v d = (case v of None \<Rightarrow> d | Some s \<Rightarrow> if s = [] then d else s)"

definition or_num :: "number option \<Rightarrow> number \<Rightarrow> number" where
  "or_num v d = (case v of None \<Rightarrow> d | Some n \<Rightarrow> if n = Num 0 \<or> n = NaN then d else n)"

text \<open>
  \<open>String.prototype.trim\<close> on the 8-bit strings of the model: the ASCII white space and
  line terminators (tab, LF, VT, FF, CR, space) are stripped from both ends.
\<close>

definition is_space :: "char \<Rightarrow> bool" where
  "is_space c = (c = CHR '' '' \<or> (9 \<le> (of_char c :: nat) \<and> (of_char c :: nat) \<le> 13))"

definition trim :: "string \<Rightarrow> string" where
  "trim s = rev (dropWhile is_space (rev (dropWhile is_space s)))"

text \<open>
  A thrown value. \<open>try { body } catch (e) { handler }\<close> is \<open>try_catch body handler\<close>;
  sequencing of statements that may throw is \<open>bind_exn\<close>.
\<close>

datatype exn = Error string

definition try_catch :: "exn + 'a \<Rightarrow> (exn \<Rightarrow> exn + 'a) \<Rightarrow> exn + 'a" where
  "try_catch body handler = (case body of Inl e \<Rightarrow> handler e | Inr v \<Rightarrow> Inr v)"

definition bind_exn :: "exn + 'a \<Rightarrow> ('a \<Rightarrow> exn + 'b) \<Rightarrow> exn + 'b" where
  "bind_exn m k = (case m of Inl e \<Rightarrow> Inl e | Inr v \<Rightarrow> k v)"

text \<open>\<open>Array.prototype.map\<close> with a callback that may throw: the first throw ends the map.\<close>

fun array_map :: "('a \<Rightarrow> exn + 'b) \<Rightarrow> 'a list \<Rightarrow> exn + 'b list" where
  "array_map f [] = Inr []"
| "array_map f (x # xs) =
     (case f x of
        Inl e \<Rightarrow> Inl e
      | Inr y \<Rightarrow> (case array_map f xs of Inl e \<Rightarrow> Inl e | Inr ys \<Rightarrow> Inr (y # ys)))"

text \<open>\<open>Array.prototype.findIndex\<close>: the first index whose element passes, \<open>-1\<close> if none does.\<close>

fun findIndex :: "('a \<Rightarrow> bool) \<Rightarrow> 'a list \<Rightarrow> int" where
  "findIndex P [] = - 1"
| "findIndex P (x # xs) =
     (if P x then 0 else (let i = findIndex P xs in if i < 0 then - 1 else i + 1))"

text \<open>\<open>xs.splice(i, 1)\<close> and \<open>xs.unshift(x)\<close>, returning the array after the mutation.\<close>

definition splice1 :: "nat \<Rightarrow> 'a list \<Rightarrow> 'a list" where
  "splice1 i xs = take i xs @ drop (Suc i) xs"

definition unshift :: "'a \<Rightarrow> 'a list \<Rightarrow> 'a list" where
  "unshift x xs = x # xs"

section \<open>Data model\<close>

text \<open>One row of the nested \<open>listing_images\<close> collection.\<close>

record ListingImage =
  storage_path :: string
  is_primary :: "bool option"

text \<open>
  A raw row of the \<open>listings\<close> table as selected by the three fetch operations; a column
  that is \<open>null\<close> is \<open>None\<close>. The key column \<open>id\<close> is \<open>row_id\<close> here.
\<close>

record ListingRow =
  row_id :: string
  title :: "string option"
  description :: "string option"
  price :: "number option"
  address :: "string option"
  city :: "string option"
  state :: "string option"
  latitude :: "number option"
  longitude :: "number option"
  num_sites :: "number option"
  occupancy_rate :: "number option"
  annual_revenue :: "number option"
  cap_rate :: "number option"
  created_at :: "string option"
  status :: "string option"
  property_type :: "string option"
  user_id :: "string option"
  listing_images :: "ListingImage list option"

text \<open>
  The \<open>ListingFilters\<close> interface. An absent key (\<open>undefined\<close>) is \<open>None\<close>; the declared
  keys hold numbers and strings only. The index signature admits further keys, which
  \<open>fetchApprovedListings\<close> never reads.
\<close>

record ListingFilters =
  priceMin :: "number option"
  priceMax :: "number option"
  state :: "string option"
  sitesMin :: "number option"
  sitesMax :: "number option"
  capRateMin :: "number option"
  occupancyRateMin :: "number option"
  search :: "string option"

text \<open>
  The \<open>Listing\<close> interface with its nested \<open>location\<close> and \<open>broker\<close> objects. The optional
  keys \<open>videoUrl\<close> and \<open>pdfUrl\<close> are never written by the fetch operations and are left out.
  The \<open>id\<close> keys are \<open>listing_id\<close> and \<open>broker_id\<close>.
\<close>

record Location =
  address :: string
  city :: string
  state :: string
  lat :: number
  lng :: number

record Broker =
  avatar :: string
  name :: string
  phone :: string
  email :: string
  company :: string
  broker_id :: string

record Listing =
  listing_id :: string
  title :: string
  description :: string
  price :: number
  location :: Location
  numSites :: number
  occupancyRate :: number
  annualRevenue :: number
  capRate :: number
  images :: "string list"
  broker :: Broker
  createdAt :: string
  featured :: bool
  status :: string

section \<open>The query sent to the store\<close>

text \<open>
  The filter methods of the query builder. \<open>Or\<close> carries the raw filter string that
  \<open>.or(...)\<close> receives.
\<close>

datatype query_filter =
    Eq string string
  | Gte string number
  | Lte string number
  | Or string

record query =
  table :: string
  columns :: string
  count_option :: "string option"
  head_only :: bool
  filters :: "query_filter list"
  ordering :: "(string \<times> bool) option"
  row_limit :: "nat option"
  single_row :: bool

definition from_table :: "string \<Rightarrow> query" where
  "from_table t =
     \<lparr> table = t, columns = [], count_option = None, head_only = False, filters = [],
       ordering = None, row_limit = None, single_row = False \<rparr>"

definition select :: "string \<Rightarrow> query \<Rightarrow> query" where
  "select cols q = q\<lparr> columns := cols \<rparr>"

definition select_count :: "string \<Rightarrow> string \<Rightarrow> bool \<Rightarrow> query \<Rightarrow> query" where
  "select_count cols c h q = q\<lparr> columns := cols, count_option := Some c, head_only := h \<rparr>"

definition eq :: "string \<Rightarrow> string \<Rightarrow> query \<Rightarrow> query" where
  "eq col v q = q\<lparr> filters := filters q @ [Eq col v] \<rparr>"

definition gte :: "string \<Rightarrow> number \<Rightarrow> query \<Rightarrow> query" where
  "gte col v q = q\<lparr> filters := filters q @ [Gte col v] \<rparr>"

definition lte :: "string \<Rightarrow> number \<Rightarrow> query \<Rightarrow> query" where
  "lte col v q = q\<lparr> filters := filters q @ [Lte col v] \<rparr>"

definition or_filter :: "string \<Rightarrow> query \<Rightarrow> query" where
  "or_filter s q = q\<lparr> filters := filters q @ [Or s] \<rparr>"

definition order_by :: "string \<Rightarrow> bool \<Rightarrow> query \<Rightarrow> query" where
  "order_by col ascending q = q\<lparr> ordering := Some (col, ascending) \<rparr>"

definition limit :: "nat \<Rightarrow> query \<Rightarrow> query" where
  "limit n q = q\<lparr> row_limit := Some n \<rparr>"

definition single :: "query \<Rightarrow> query" where
  "single q = q\<lparr> single_row := True \<rparr>"

text \<open>
  The guarded reassignment \<open>if (x !== undefined && P(x)) { query = query.g(x) }\<close> (for a
  string, \<open>if (x && P(x))\<close>), as a function from the query before the statement to the
  query after it.
\<close>

definition when_defined ::
  "'a option \<Rightarrow> ('a \<Rightarrow> bool) \<Rightarrow> ('a \<Rightarrow> query \<Rightarrow> query) \<Rightarrow> query \<Rightarrow> query" where
  "when_defined x P g q = (case x of None \<Rightarrow> q | Some v \<Rightarrow> if P v then g v q else q)"

text \<open>The column list of the three row-fetching selects (white space removed).\<close>

definition LISTING_COLUMNS :: string where
  "LISTING_COLUMNS =
     ''id,title,description,price,address,city,state,latitude,longitude,num_sites,'' @
     ''occupancy_rate,annual_revenue,cap_rate,created_at,status,property_type,user_id,'' @
     ''listing_images(storage_path,is_primary)''"

section \<open>The backend\<close>

text \<open>
  What awaiting a query yields: the \<open>{ data, error, count }\<close> object of the client library.
\<close>

datatype store_error = PostgrestError string

record 'a response =
  data :: "'a option"
  error :: "store_error option"
  count :: "number option"

text \<open>
  Everything outside the module: awaiting a query either throws (\<open>Inl\<close>, a rejected
  promise) or yields a response; \<open>getPublicUrl bucket path\<close> is the storage call
  \<open>supabase.storage.from(bucket).getPublicUrl(path).data.publicUrl\<close>, which may throw;
  \<open>clock i\<close> is what \<open>new Date().toISOString()\<close> reads while row \<open>i\<close> of a batch is
  transformed.
\<close>

record backend =
  execute :: "query \<Rightarrow> exn + ListingRow list response"
  execute_single :: "query \<Rightarrow> exn + ListingRow response"
  execute_count :: "query \<Rightarrow> exn + unit response"
  getPublicUrl :: "string \<Rightarrow> string \<Rightarrow> exn + string"
  clock :: "nat \<Rightarrow> string"

section \<open>fetchApprovedListings\<close>

text \<open>
  The query built by \<open>fetchApprovedListings\<close> before it is awaited: the select
  restricted to approved rows, then one optional constraint per recognised filter key.
\<close>

definition fetchApprovedListings_query :: "ListingFilters option \<Rightarrow> query" where
  "fetchApprovedListings_query filters_arg =
     (let query = eq ''status'' ''approved'' (select LISTING_COLUMNS (from_table ''listings''))
      in case filters_arg of
           None \<Rightarrow> query
         | Some f \<Rightarrow>
            (let query = when_defined (priceMin f) (\<lambda>v. js_gt v (Num 0)) (gte ''price'') query;
                 query = when_defined (priceMax f) (\<lambda>v. js_lt v (Num 10000000)) (lte ''price'')
                           query;
                 query = when_defined (ListingFilters.state f) (\<lambda>s. s \<noteq> []) (eq ''state'')
                           query;
                 query = when_defined (sitesMin f) (\<lambda>v. js_gt v (Num 0)) (gte ''num_sites'')
                           query;
                 query = when_defined (sitesMax f) (\<lambda>v. js_lt v (Num 1000)) (lte ''num_sites'')
                           query;
                 query = when_defined (capRateMin f) (\<lambda>v. js_gt v (Num 0)) (gte ''cap_rate'')
                           query;
                 query = when_defined (occupancyRateMin f) (\<lambda>v. js_gt v (Num 0))
                           (gte ''occupancy_rate'') query;
                 query = when_defined (search f) (\<lambda>s. s \<noteq> [] \<and> trim s \<noteq> [])
                           (\<lambda>s. let searchTerm = ''%'' @ trim s @ ''%''
                                in or_filter
                                     (''title.ilike.'' @ searchTerm @
                                      '',description.ilike.'' @ searchTerm @
                                      '',city.ilike.'' @ searchTerm @
                                      '',state.ilike.'' @ searchTerm))
                           query
             in query))"

text \<open>
  The callback of \<open>data.map\<close> in \<open>fetchApprovedListings\<close>, without its own
  \<open>try\<close>/\<open>catch\<close>: \<open>Inl\<close> is the exception the \<open>catch\<close> will see.
\<close>

definition transform_listing :: "backend \<Rightarrow> nat \<Rightarrow> ListingRow \<Rightarrow> exn + Listing" where
  "transform_listing env i listing =
     bind_exn
       (case listing_images listing of
          None \<Rightarrow> Inr []
        | Some imgs \<Rightarrow>
            array_map (\<lambda>img. getPublicUrl env ''listing-images'' (storage_path img)) imgs)
       (\<lambda>images0.
          let primaryImageIndex =
                (case listing_images listing of
                   None \<Rightarrow> - 1
                 | Some imgs \<Rightarrow>
                     if length imgs > 0 then findIndex (\<lambda>img. is_primary img = Some True) imgs
                     else - 1);
              images1 =
                (if primaryImageIndex > 0 \<and> length images0 > 0 then
                   (let primaryImage = images0 ! nat primaryImageIndex
                    in unshift primaryImage (splice1 (nat primaryImageIndex) images0))
                 else images0)
          in Inr \<lparr> listing_id = row_id listing,
                   title = or_str (ListingRow.title listing) ''Untitled Listing'',
                   description = or_str (ListingRow.description listing) [],
                   price = or_num (ListingRow.price listing) (Num 0),
                   location =
                     \<lparr> address = or_str (ListingRow.address listing) [],
                       city = or_str (ListingRow.city listing) [],
                       state = or_str (ListingRow.state listing) [],
                       lat = or_num (latitude listing) (Num 0),
                       lng = or_num (longitude listing) (Num 0) \<rparr>,
                   numSites = or_num (num_sites listing) (Num 0),
                   occupancyRate = or_num (occupancy_rate listing) (Num 0),
                   annualRevenue = or_num (annual_revenue listing) (Num 0),
                   capRate = or_num (cap_rate listing) (Num 0),
                   images = images1,
                   broker =
                     \<lparr> avatar = ''/default-avatar.png'',
                       name = ''Contact Agent'',
                       phone = [],
                       email = ''contact@example.com'',
                       company = [],
                       broker_id = or_str (user_id listing) [] \<rparr>,
                   createdAt = or_str (created_at listing) (clock env i),
                   featured = False,
                   status = or_str (ListingRow.status listing) ''approved'' \<rparr>)"

text \<open>
  \<open>data.map(row => { try { ... } catch { return null } }).filter(item => item !== null)\<close>
  for a given callback body, followed by the cast to \<open>Listing[]\<close>.
\<close>

definition map_rows :: "(nat \<Rightarrow> ListingRow \<Rightarrow> exn + Listing) \<Rightarrow> ListingRow list \<Rightarrow> Listing list" where
  "map_rows body rows =
     map the
       (filter (\<lambda>item. item \<noteq> None)
          (map (\<lambda>(i, row). case body i row of Inl itemError \<Rightarrow> None | Inr l \<Rightarrow> Some l)
             (enumerate 0 rows)))"

definition fetchApprovedListings :: "backend \<Rightarrow> ListingFilters option \<Rightarrow> exn + Listing list" where
  "fetchApprovedListings env filters_arg =
     try_catch
       (bind_exn (execute env (fetchApprovedListings_query filters_arg))
          (\<lambda>resp.
             if error resp \<noteq> None then Inr []
             else (case data resp of
                     Some rows \<Rightarrow>
                       if length rows > 0 then Inr (map_rows (transform_listing env) rows)
                       else Inr []
                   | None \<Rightarrow> Inr [])))
       (\<lambda>e. Inr [])"

section \<open>fetchFeaturedApprovedListings\<close>

definition fetchFeaturedApprovedListings_query :: query where
  "fetchFeaturedApprovedListings_query =
     limit 3
       (order_by ''created_at'' False
          (eq ''status'' ''approved'' (select LISTING_COLUMNS (from_table ''listings''))))"

definition transform_featured :: "backend \<Rightarrow> nat \<Rightarrow> ListingRow \<Rightarrow> exn + Listing" where
  "transform_featured env i listing =
     bind_exn
       (case listing_images listing of
          None \<Rightarrow> Inr []
        | Some imgs \<Rightarrow>
            array_map (\<lambda>img. getPublicUrl env ''listing-images'' (storage_path img)) imgs)
       (\<lambda>images0.
          let primaryImageIndex =
                (case listing_images listing of
                   None \<Rightarrow> - 1
                 | Some imgs \<Rightarrow>
                     if length imgs > 0 then findIndex (\<lambda>img. is_primary img = Some True) imgs
                     else - 1);
              images1 =
                (if primaryImageIndex > 0 \<and> length images0 > 0 then
                   (let primaryImage = images0 ! nat primaryImageIndex
                    in unshift primaryImage (splice1 (nat primaryImageIndex) images0))
                 else images0);
              broker0 =
                \<lparr> avatar = ''/default-avatar.png'',
                  name = ''Contact Agent'',
                  phone = [],
                  email = ''contact@example.com'',
                  company = [],
                  broker_id = or_str (user_id listing) [] \<rparr>
          in Inr \<lparr> listing_id = row_id listing,
                   title = or_str (ListingRow.title listing) ''Untitled Listing'',
                   description = or_str (ListingRow.description listing) [],
                   price = or_num (ListingRow.price listing) (Num 0),
                   location =
                     \<lparr> address = or_str (ListingRow.address listing) [],
                       city = or_str (ListingRow.city listing) [],
                       state = or_str (ListingRow.state listing) [],
                       lat = or_num (latitude listing) (Num 0),
                       lng = or_num (longitude listing) (Num 0) \<rparr>,
                   numSites = or_num (num_sites listing) (Num 0),
                   occupancyRate = or_num (occupancy_rate listing) (Num 0),
                   annualRevenue = or_num (annual_revenue listing) (Num 0),
                   capRate = or_num (cap_rate listing) (Num 0),
                   images = images1,
                   broker = broker0,
                   createdAt = or_str (created_at listing) (clock env i),
                   featured = True,
                   status = or_str (ListingRow.status listing) ''approved'' \<rparr>)"

definition fetchFeaturedApprovedListings :: "backend \<Rightarrow> exn + Listing list" where
  "fetchFeaturedApprovedListings env =
     try_catch
       (bind_exn (execute env fetchFeaturedApprovedListings_query)
          (\<lambda>resp.
             if error resp \<noteq> None then Inr []
             else (case data resp of
                     Some rows \<Rightarrow>
                       if length rows > 0 then Inr (map_rows (transform_featured env) rows)
                       else Inr []
                   | None \<Rightarrow> Inr [])))
       (\<lambda>e. Inr [])"

section \<open>fetchApprovedListingById\<close>

definition fetchApprovedListingById_query :: "string \<Rightarrow> query" where
  "fetchApprovedListingById_query ident =
     single
       (eq ''status'' ''approved''
          (eq ''id'' ident (select LISTING_COLUMNS (from_table ''listings''))))"

definition transform_single :: "backend \<Rightarrow> nat \<Rightarrow> ListingRow \<Rightarrow> exn + Listing" where
  "transform_single env i row =
     bind_exn
       (case listing_images row of
          None \<Rightarrow> Inr []
        | Some imgs \<Rightarrow>
            array_map (\<lambda>img. getPublicUrl env ''listing-images'' (storage_path img)) imgs)
       (\<lambda>images0.
          let primaryImageIndex =
                (case listing_images row of
                   None \<Rightarrow> - 1
                 | Some imgs \<Rightarrow>
                     if length imgs > 0 then findIndex (\<lambda>img. is_primary img = Some True) imgs
                     else - 1);
              images1 =
                (if primaryImageIndex > 0 \<and> length images0 > 0 then
                   (let primaryImage = images0 ! nat primaryImageIndex
                    in unshift primaryImage (splice1 (nat primaryImageIndex) images0))
                 else images0)
          in Inr \<lparr> listing_id = row_id row,
                   title = or_str (ListingRow.title row) ''Untitled Listing'',
                   description = or_str (ListingRow.description row) [],
                   price = or_num (ListingRow.price row) (Num 0),
                   location =
                     \<lparr> address = or_str (ListingRow.address row) [],
                       city = or_str (ListingRow.city row) [],
                       state = or_str (ListingRow.state row) [],
                       lat = or_num (latitude row) (Num 0),
                       lng = or_num (longitude row) (Num 0) \<rparr>,
                   numSites = or_num (num_sites row) (Num 0),
                   occupancyRate = or_num (occupancy_rate row) (Num 0),
                   annualRevenue = or_num (annual_revenue row) (Num 0),
                   capRate = or_num (cap_rate row) (Num 0),
                   images = images1,
                   broker =
                     \<lparr> avatar = ''/default-avatar.png'',
                       name = ''Contact Agent'',
                       phone = [],
                       email = ''contact@example.com'',
                       company = [],
                       broker_id = or_str (user_id row) [] \<rparr>,
                   createdAt = or_str (created_at row) (clock env i),
                   featured = False,
                   status = or_str (ListingRow.status row) ''approved'' \<rparr>)"

text \<open>The result \<open>Listing | null\<close> is \<open>Listing option\<close>.\<close>

definition fetchApprovedListingById :: "backend \<Rightarrow> string \<Rightarrow> exn + Listing option" where
  "fetchApprovedListingById env ident =
     try_catch
       (bind_exn (execute_single env (fetchApprovedListingById_query ident))
          (\<lambda>resp.
             if error resp \<noteq> None then Inr None
             else (case data resp of
                     Some row \<Rightarrow>
                       try_catch
                         (bind_exn (transform_single env 0 row) (\<lambda>l. Inr (Some l)))
                         (\<lambda>processingError. Inr None)
                   | None \<Rightarrow> Inr None)))
       (\<lambda>e. Inr None)"

section \<open>countApprovedListings\<close>

definition countApprovedListings_query :: query where
  "countApprovedListings_query =
     eq ''status'' ''approved'' (select_count ''id'' ''exact'' True (from_table ''listings''))"

definition countApprovedListings :: "backend \<Rightarrow> exn + number" where
  "countApprovedListings env =
     try_catch
       (bind_exn (execute_count env countApprovedListings_query)
          (\<lambda>resp.
             if error resp \<noteq> None then Inr (Num 0)
             else Inr (or_num (count resp) (Num 0))))
       (\<lambda>e. Inr (Num 0))"

section \<open>What the store is assumed to do\<close>

text \<open>
  The store is outside the module. The predicates below say when a batch of rows it returned
  respects the query it was sent: every equality filter, the row limit, and a descending
  order on \<open>created_at\<close> (a descending sort of the store puts rows without a value first).
\<close>

definition text_column :: "string \<Rightarrow> ListingRow \<Rightarrow> string option" where
  "text_column col r =
     (if col = ''id'' then Some (row_id r)
      else if col = ''title'' then ListingRow.title r
      else if col = ''description'' then ListingRow.description r
      else if col = ''address'' then ListingRow.address r
      else if col = ''city'' then ListingRow.city r
      else if col = ''state'' then ListingRow.state r
      else if col = ''created_at'' then created_at r
      else if col = ''status'' then ListingRow.status r
      else if col = ''property_type'' then property_type r
      else if col = ''user_id'' then user_id r
      else None)"

definition honours_eq :: "query \<Rightarrow> ListingRow list \<Rightarrow> bool" where
  "honours_eq q rows =
     (\<forall>r \<in> set rows. \<forall>f \<in> set (filters q).
        (case f of Eq col v \<Rightarrow> text_column col r = Some v | _ \<Rightarrow> True))"

definition honours_limit :: "query \<Rightarrow> ListingRow list \<Rightarrow> bool" where
  "honours_limit q rows = (case row_limit q of None \<Rightarrow> True | Some n \<Rightarrow> length rows \<le> n)"

definition nulls_first :: "(string \<Rightarrow> string \<Rightarrow> bool) \<Rightarrow> string option \<Rightarrow> string option \<Rightarrow> bool" where
  "nulls_first ge a b =
     (case a of None \<Rightarrow> True | Some x \<Rightarrow> (case b of None \<Rightarrow> False | Some y \<Rightarrow> ge x y))"

definition created_at_descending :: "(string \<Rightarrow> string \<Rightarrow> bool) \<Rightarrow> ListingRow list \<Rightarrow> bool" where
  "created_at_descending ge rows =
     sorted_wrt (\<lambda>a b. nulls_first ge (created_at a) (created_at b)) rows"

text \<open>The order of a result: each record is at least as recent as every later one.\<close>

definition createdAt_descending :: "(string \<Rightarrow> string \<Rightarrow> bool) \<Rightarrow> Listing list \<Rightarrow> bool" where
  "createdAt_descending ge out = sorted_wrt (\<lambda>a b. ge (createdAt a) (createdAt b)) out"

text \<open>
  The comparison \<open>a >= b\<close> of two strings by code unit, which orders timestamps written in
  one ISO-8601 format and zone chronologically.
\<close>

fun str_ge :: "string \<Rightarrow> string \<Rightarrow> bool" where
  "str_ge _ [] = True"
| "str_ge [] (b # bs) = False"
| "str_ge (a # as) (b # bs) =
     (if a = b then str_ge as bs else (of_char b :: nat) < of_char a)"

text \<open>A store-level failure: the awaited query threw, or its response carries an error.\<close>

definition store_failure :: "exn + 'a response \<Rightarrow> bool" where
  "store_failure outcome = (case outcome of Inl e \<Rightarrow> True | Inr resp \<Rightarrow> error resp \<noteq> None)"

text \<open>
  The argument of \<open>.or(...)\<close> is a list of conditions separated by commas, as the template
  in \<open>fetchApprovedListings\<close> writes it. \<open>split_on\<close> cuts a string at every occurrence of
  the separator.
\<close>

fun split_on :: "char \<Rightarrow> string \<Rightarrow> string list" where
  "split_on c [] = [[]]"
| "split_on c (x # xs) =
     (if x = c then [] # split_on c xs
      else (case split_on c xs of [] \<Rightarrow> [[x]] | p # ps \<Rightarrow> (x # p) # ps))"

definition or_arguments :: "query \<Rightarrow> string list" where
  "or_arguments q = concat (map (\<lambda>f. case f of Or s \<Rightarrow> [s] | _ \<Rightarrow> []) (filters q))"

text \<open>
  The search constraint as the specification words it: one case-insensitive pattern
  \<open>%term%\<close> on each of the four columns.
\<close>

definition spec_search_conditions :: "string \<Rightarrow> string list" where
  "spec_search_conditions term =
     map (\<lambda>col. col @ ''.ilike.%'' @ term @ ''%'') [''title'', ''description'', ''city'', ''state'']"

section \<open>Sample inputs\<close>

definition no_filters :: ListingFilters where
  "no_filters =
     \<lparr> priceMin = None, priceMax = None, state = None, sitesMin = None, sitesMax = None,
       capRateMin = None, occupancyRateMin = None, search = None \<rparr>"

definition blank_row :: ListingRow where
  "blank_row =
     \<lparr> row_id = ''row-0'', title = None, description = None, price = None, address = None,
       city = None, state = None, latitude = None, longitude = None, num_sites = None,
       occupancy_rate = None, annual_revenue = None, cap_rate = None, created_at = None,
       status = Some ''approved'', property_type = None, user_id = None,
       listing_images = None \<rparr>"

definition park_row :: ListingRow where
  "park_row =
     blank_row
       \<lparr> row_id := ''row-1'', ListingRow.title := Some ''Lake Park'',
         ListingRow.price := Some (Num 250000), ListingRow.city := Some ''Austin'',
         ListingRow.state := Some ''TX'', created_at := Some ''2024-05-01T10:00:00.000Z'',
         user_id := Some ''user-7'',
         listing_images :=
           Some [\<lparr> storage_path = ''a.jpg'', is_primary = Some False \<rparr>,
                 \<lparr> storage_path = ''b.jpg'', is_primary = None \<rparr>,
                 \<lparr> storage_path = ''c.jpg'', is_primary = Some True \<rparr>,
                 \<lparr> storage_path = ''d.jpg'', is_primary = Some True \<rparr>] \<rparr>"

definition broken_row :: ListingRow where
  "broken_row =
     blank_row
       \<lparr> row_id := ''row-2'',
         listing_images := Some [\<lparr> storage_path = ''missing'', is_primary = None \<rparr>] \<rparr>"

definition public_url :: "string \<Rightarrow> string \<Rightarrow> exn + string" where
  "public_url bucket path =
     (if path = ''missing'' then Inl (Error ''no such object'')
      else Inr (''https://cdn.example/'' @ bucket @ ''/'' @ path))"

definition rows_backend :: "ListingRow list \<Rightarrow> backend" where
  "rows_backend rows =
     \<lparr> execute = (\<lambda>q. Inr \<lparr> data = Some rows, error = None, count = None \<rparr>),
       execute_single =
         (\<lambda>q. case rows of
                 [r] \<Rightarrow> Inr \<lparr> data = Some r, error = None, count = None \<rparr>
               | _ \<Rightarrow> Inr \<lparr> data = None, error = Some (PostgrestError ''PGRST116''),
                           count = None \<rparr>),
       execute_count =
         (\<lambda>q. Inr \<lparr> data = None, error = None, count = Some (Num (real (length rows))) \<rparr>),
       getPublicUrl = public_url,
       clock =
         (\<lambda>i. if i = 0 then ''2026-11-02T09:30:00.000Z'' else ''2026-11-02T09:30:00.001Z'') \<rparr>"

definition failing_backend :: backend where
  "failing_backend =
     \<lparr> execute = (\<lambda>q. Inl (Error ''fetch failed'')),
       execute_single =
         (\<lambda>q. Inr \<lparr> data = None, error = Some (PostgrestError ''PGRST116''), count = None \<rparr>),
       execute_count = (\<lambda>q. Inl (Error ''fetch failed'')),
       getPublicUrl = public_url,
       clock = (\<lambda>i. ''2026-11-02T09:30:00.000Z'') \<rparr>"

definition dated_rows :: "ListingRow list" where
  "dated_rows =
     [park_row,
      park_row\<lparr> row_id := ''row-4'', created_at := Some ''2024-04-30T08:00:00.000Z'' \<rparr>]"

text \<open>Two approved rows without a creation time, and what the featured fetch makes of them.\<close>

definition undated_rows :: "ListingRow list" where
  "undated_rows = [blank_row, blank_row\<lparr> row_id := ''row-3'' \<rparr>]"

definition undated_result :: "Listing list" where
  "undated_result =
     map (\<lambda>(ident, stamp).
            \<lparr> listing_id = ident, title = ''Untitled Listing'', description = [],
              price = Num 0,
              location = \<lparr> address = [], city = [], state = [], lat = Num 0, lng = Num 0 \<rparr>,
              numSites = Num 0, occupancyRate = Num 0, annualRevenue = Num 0, capRate = Num 0,
              images = [],
              broker = \<lparr> avatar = ''/default-avatar.png'', name = ''Contact Agent'', phone = [],
                         email = ''contact@example.com'', company = [], broker_id = [] \<rparr>,
              createdAt = stamp, featured = True, status = ''approved'' \<rparr>)
       [(''row-0'', ''2026-11-02T09:30:00.000Z''), (''row-3'', ''2026-11-02T09:30:00.001Z'')]"

section \<open>Auxiliary facts\<close>

lemma array_map_length: "array_map f xs = Inr ys \<Longrightarrow> length ys = length xs"
  by (induction xs arbitrary: ys) (auto split: sum.splits)

lemma findIndex_first:
  "k < length xs \<Longrightarrow> P (xs ! k) \<Longrightarrow> \<forall>j<k. \<not> P (xs ! j) \<Longrightarrow> findIndex P xs = int k"
proof (induction xs arbitrary: k)
  case Nil
  then show ?case by simp
next
  case (Cons x xs)
  show ?case
  proof (cases k)
    case 0
    with Cons.prems show ?thesis by simp
  next
    case (Suc m)
    with Cons.prems have "\<not> P x" by auto
    moreover from Suc Cons.prems have "findIndex P xs = int m"
      by (intro Cons.IH) auto
    ultimately show ?thesis using Suc by (simp add: Let_def)
  qed
qed

lemma collect_successes:
  "map the (filter (\<lambda>item. item \<noteq> None)
      (map (\<lambda>(i, row). case body i row of Inl e \<Rightarrow> None | Inr l \<Rightarrow> Some l) ps))
   = concat (map (\<lambda>(i, row). case body i row of Inl e \<Rightarrow> [] | Inr l \<Rightarrow> [l]) ps)"
  by (induction ps) (auto split: sum.splits)

lemma map_rows_concat:
  "map_rows body rows =
     concat (map (\<lambda>(i, row). case body i row of Inl e \<Rightarrow> [] | Inr l \<Rightarrow> [l])
               (enumerate 0 rows))"
  unfolding map_rows_def by (rule collect_successes)

lemma fetchApprovedListings_rows:
  assumes "execute env (fetchApprovedListings_query fs) = Inr resp"
    and "error resp = None" and "data resp = Some rows"
  shows "fetchApprovedListings env fs = Inr (map_rows (transform_listing env) rows)"
  using assms
  by (simp add: fetchApprovedListings_def try_catch_def bind_exn_def map_rows_def
      enumerate_eq_zip)

lemma fetchFeaturedApprovedListings_rows:
  assumes "execute env fetchFeaturedApprovedListings_query = Inr resp"
    and "error resp = None" and "data resp = Some rows"
  shows "fetchFeaturedApprovedListings env = Inr (map_rows (transform_featured env) rows)"
  using assms
  by (simp add: fetchFeaturedApprovedListings_def try_catch_def bind_exn_def map_rows_def
      enumerate_eq_zip)

section \<open>Soft failure of the four operations\<close>

text \<open>
  Claim C2. Whatever the input and whatever the store does (a response, a response carrying
  an error, or an exception while the query is awaited), each of the four operations
  returns a value and raises nothing; when the store fails, \<open>fetchApprovedListings\<close> and
  \<open>fetchFeaturedApprovedListings\<close> return the empty sequence, \<open>fetchApprovedListingById\<close>
  returns \<open>null\<close> and \<open>countApprovedListings\<close> returns \<open>0\<close>.
\<close>

theorem soft_failure:
  "(\<exists>v. fetchApprovedListings env fs = Inr v) \<and>
   (\<exists>v. fetchFeaturedApprovedListings env = Inr v) \<and>
   (\<exists>v. fetchApprovedListingById env ident = Inr v) \<and>
   (\<exists>v. countApprovedListings env = Inr v) \<and>
   (store_failure (execute env (fetchApprovedListings_query fs)) \<longrightarrow>
      fetchApprovedListings env fs = Inr []) \<and>
   (store_failure (execute env fetchFeaturedApprovedListings_query) \<longrightarrow>
      fetchFeaturedApprovedListings env = Inr []) \<and>
   (store_failure (execute_single env (fetchApprovedListingById_query ident)) \<longrightarrow>
      fetchApprovedListingById env ident = Inr None) \<and>
   (store_failure (execute_count env countApprovedListings_query) \<longrightarrow>
      countApprovedListings env = Inr (Num 0))"
proof (intro conjI)
  show "\<exists>v. fetchApprovedListings env fs = Inr v"
    by (auto simp add: fetchApprovedListings_def try_catch_def bind_exn_def
        split: sum.splits option.splits)
  show "\<exists>v. fetchFeaturedApprovedListings env = Inr v"
    by (auto simp add: fetchFeaturedApprovedListings_def try_catch_def bind_exn_def
        split: sum.splits option.splits)
  show "\<exists>v. fetchApprovedListingById env ident = Inr v"
    by (auto simp add: fetchApprovedListingById_def try_catch_def bind_exn_def
        split: sum.splits option.splits)
  show "\<exists>v. countApprovedListings env = Inr v"
    by (auto simp add: countApprovedListings_def try_catch_def bind_exn_def
        split: sum.splits option.splits)
  show "store_failure (execute env (fetchApprovedListings_query fs)) \<longrightarrow>
      fetchApprovedListings env fs = Inr []"
    by (auto simp add: fetchApprovedListings_def try_catch_def bind_exn_def store_failure_def
        split: sum.splits)
  show "store_failure (execute env fetchFeaturedApprovedListings_query) \<longrightarrow>
      fetchFeaturedApprovedListings env = Inr []"
    by (auto simp add: fetchFeaturedApprovedListings_def try_catch_def bind_exn_def
        store_failure_def split: sum.splits)
  show "store_failure (execute_single env (fetchApprovedListingById_query ident)) \<longrightarrow>
      fetchApprovedListingById env ident = Inr None"
    by (auto simp add: fetchApprovedListingById_def try_catch_def bind_exn_def
        store_failure_def split: sum.splits)
  show "store_failure (execute_count env countApprovedListings_query) \<longrightarrow>
      countApprovedListings env = Inr (Num 0)"
    by (auto simp add: countApprovedListings_def try_catch_def bind_exn_def
        store_failure_def split: sum.splits)
qed

theorem soft_failure_witness:
  "store_failure (execute failing_backend (fetchApprovedListings_query None)) \<and>
   store_failure (execute failing_backend fetchFeaturedApprovedListings_query) \<and>
   store_failure (execute_single failing_backend (fetchApprovedListingById_query ''row-1'')) \<and>
   store_failure (execute_count failing_backend countApprovedListings_query) \<and>
   fetchApprovedListings failing_backend None = Inr [] \<and>
   fetchFeaturedApprovedListings failing_backend = Inr [] \<and>
   fetchApprovedListingById failing_backend ''row-1'' = Inr None \<and>
   countApprovedListings failing_backend = Inr (Num 0)"
  using soft_failure [of failing_backend None "''row-1''"]
  by (simp add: failing_backend_def store_failure_def)

section \<open>Field defaults\<close>

text \<open>
  Claim C8. The normalizer maps a price of \<open>0\<close> and a missing price to the same output: the
  two rows normalize to the same result, so they cannot be told apart afterwards, and the
  record of a row whose price is \<open>0\<close> or missing has \<open>price = 0\<close>.
\<close>

theorem zero_and_missing_price_coincide:
  "transform_listing env i (row\<lparr>ListingRow.price := Some (Num 0)\<rparr>) =
     transform_listing env i (row\<lparr>ListingRow.price := None\<rparr>) \<and>
   (\<forall>l. (ListingRow.price row = None \<or> ListingRow.price row = Some (Num 0)) \<and>
        transform_listing env i row = Inr l \<longrightarrow> price l = Num 0)"
  by (auto simp: transform_listing_def or_num_def bind_exn_def Let_def split: sum.splits)

theorem zero_and_missing_price_coincide_witness:
  "\<exists>l. transform_listing (rows_backend []) 0 (park_row\<lparr>ListingRow.price := Some (Num 0)\<rparr>)
         = Inr l \<and>
       transform_listing (rows_backend []) 0 (park_row\<lparr>ListingRow.price := None\<rparr>) = Inr l \<and>
       price l = Num 0"
proof -
  let ?r = "park_row\<lparr>ListingRow.price := None\<rparr>"
  have "\<exists>l. transform_listing (rows_backend []) 0 ?r = Inr l"
    by (simp add: transform_listing_def park_row_def blank_row_def rows_backend_def
        public_url_def bind_exn_def Let_def)
  then obtain l where l: "transform_listing (rows_backend []) 0 ?r = Inr l" ..
  have p: "ListingRow.price ?r = None" by simp
  from zero_and_missing_price_coincide [of "rows_backend []" 0 ?r] l p
  have "price l = Num 0" by blast
  moreover from zero_and_missing_price_coincide [of "rows_backend []" 0 park_row] l
  have "transform_listing (rows_backend []) 0 (park_row\<lparr>ListingRow.price := Some (Num 0)\<rparr>)
          = Inr l"
    by simp
  ultimately show ?thesis using l by blast
qed

section \<open>Rows without images\<close>

text \<open>
  Claim C9. A row whose nested image collection is absent or empty normalizes successfully,
  in each of the three operations, to a record whose \<open>images\<close> is the empty sequence: no
  promotion takes place, nothing is thrown and the row is not dropped.
\<close>

theorem no_images_empty_sequence:
  assumes "listing_images row = None \<or> listing_images row = Some []"
  shows "(\<exists>l. transform_listing env i row = Inr l \<and> images l = []) \<and>
         (\<exists>l. transform_featured env i row = Inr l \<and> images l = []) \<and>
         (\<exists>l. transform_single env i row = Inr l \<and> images l = [])"
  using assms
  by (auto simp: transform_listing_def transform_featured_def transform_single_def
      bind_exn_def Let_def)

theorem no_images_empty_sequence_witness:
  "listing_images blank_row = None \<and>
   (\<exists>l. transform_listing (rows_backend []) 0 blank_row = Inr l \<and> images l = [])"
  using no_images_empty_sequence [of blank_row "rows_backend []" 0]
  by (simp add: blank_row_def)

section \<open>The three copies of the normalizer\<close>

text \<open>
  Claim C10. The per-row transformations written out in \<open>fetchApprovedListings\<close>,
  \<open>fetchFeaturedApprovedListings\<close> and \<open>fetchApprovedListingById\<close> agree on every row (and
  every backend and clock reading) except for \<open>featured\<close>: the first and the third are equal,
  and the second is the first with \<open>featured\<close> set to true. So image resolution and
  promotion, the field defaults and the synthesized broker (id from \<open>user_id\<close> or empty,
  name "Contact Agent", email "contact@example.com", empty phone and company, the fixed
  avatar path) coincide.
\<close>

theorem transforms_agree:
  "transform_single env i row = transform_listing env i row \<and>
   transform_featured env i row =
     map_sum id (\<lambda>l. l\<lparr>featured := True\<rparr>) (transform_listing env i row) \<and>
   (\<forall>l. transform_listing env i row = Inr l \<longrightarrow>
      featured l = False \<and>
      broker l = \<lparr> avatar = ''/default-avatar.png'', name = ''Contact Agent'', phone = [],
                   email = ''contact@example.com'', company = [],
                   broker_id = or_str (user_id row) [] \<rparr>)"
  by (auto simp: transform_listing_def transform_featured_def transform_single_def
      bind_exn_def Let_def split: sum.splits)

theorem transforms_agree_witness:
  "\<exists>l. transform_listing (rows_backend []) 0 park_row = Inr l \<and>
       transform_single (rows_backend []) 0 park_row = Inr l \<and>
       transform_featured (rows_backend []) 0 park_row = Inr (l\<lparr>featured := True\<rparr>) \<and>
       featured l = False \<and> broker_id (broker l) = ''user-7''"
proof -
  have "\<exists>l. transform_listing (rows_backend []) 0 park_row = Inr l"
    by (simp add: transform_listing_def park_row_def blank_row_def rows_backend_def
        public_url_def bind_exn_def Let_def)
  then obtain l where l: "transform_listing (rows_backend []) 0 park_row = Inr l" ..
  have u: "or_str (user_id park_row) [] = ''user-7''"
    by (simp add: park_row_def blank_row_def or_str_def)
  from transforms_agree [of "rows_backend []" 0 park_row] l u show ?thesis by auto
qed

section \<open>The filters of the query\<close>

lemma filters_eq: "filters (eq c v q) = filters q @ [Eq c v]" by (simp add: eq_def)
lemma filters_gte: "filters (gte c n q) = filters q @ [Gte c n]" by (simp add: gte_def)
lemma filters_lte: "filters (lte c n q) = filters q @ [Lte c n]" by (simp add: lte_def)
lemma filters_or: "filters (or_filter s q) = filters q @ [Or s]" by (simp add: or_filter_def)
lemma filters_select: "filters (select cols q) = filters q" by (simp add: select_def)
lemma filters_from: "filters (from_table t) = []" by (simp add: from_table_def)

lemma filters_when_gte:
  "filters (when_defined x P (gte c) q) =
   filters q @ (case x of None \<Rightarrow> [] | Some v \<Rightarrow> if P v then [Gte c v] else [])"
  by (simp add: when_defined_def gte_def split: option.splits)

lemma filters_when_lte:
  "filters (when_defined x P (lte c) q) =
   filters q @ (case x of None \<Rightarrow> [] | Some v \<Rightarrow> if P v then [Lte c v] else [])"
  by (simp add: when_defined_def lte_def split: option.splits)

lemma filters_when_eq:
  "filters (when_defined x P (eq c) q) =
   filters q @ (case x of None \<Rightarrow> [] | Some v \<Rightarrow> if P v then [Eq c v] else [])"
  by (simp add: when_defined_def eq_def split: option.splits)

lemma filters_when_or:
  "filters (when_defined x P (\<lambda>v. or_filter (h v)) q) =
   filters q @ (case x of None \<Rightarrow> [] | Some v \<Rightarrow> if P v then [Or (h v)] else [])"
  by (simp add: when_defined_def or_filter_def split: option.splits)

lemma fetchApprovedListings_query_filters:
  "filters (fetchApprovedListings_query (Some f)) =
     [Eq ''status'' ''approved''] @
     (case priceMin f of Some v \<Rightarrow> if js_gt v (Num 0) then [Gte ''price'' v] else [] | None \<Rightarrow> []) @
     (case priceMax f of Some v \<Rightarrow> if js_lt v (Num 10000000) then [Lte ''price'' v] else []
      | None \<Rightarrow> []) @
     (case ListingFilters.state f of Some s \<Rightarrow> if s \<noteq> [] then [Eq ''state'' s] else []
      | None \<Rightarrow> []) @
     (case sitesMin f of Some v \<Rightarrow> if js_gt v (Num 0) then [Gte ''num_sites'' v] else []
      | None \<Rightarrow> []) @
     (case sitesMax f of Some v \<Rightarrow> if js_lt v (Num 1000) then [Lte ''num_sites'' v] else []
      | None \<Rightarrow> []) @
     (case capRateMin f of Some v \<Rightarrow> if js_gt v (Num 0) then [Gte ''cap_rate'' v] else []
      | None \<Rightarrow> []) @
     (case occupancyRateMin f of
        Some v \<Rightarrow> if js_gt v (Num 0) then [Gte ''occupancy_rate'' v] else [] | None \<Rightarrow> []) @
     (case search f of
        Some s \<Rightarrow> if s \<noteq> [] \<and> trim s \<noteq> [] then
                    [Or (''title.ilike.%'' @ trim s @ ''%,description.ilike.%'' @ trim s @
                         ''%,city.ilike.%'' @ trim s @ ''%,state.ilike.%'' @ trim s @ ''%'')]
                  else []
      | None \<Rightarrow> [])"
  unfolding fetchApprovedListings_query_def Let_def option.case
  by (simp add: filters_when_gte filters_when_lte filters_when_eq filters_when_or filters_eq
      filters_select filters_from cong: option.case_cong if_cong)

lemma fetchApprovedListings_query_None:
  "filters (fetchApprovedListings_query None) = [Eq ''status'' ''approved'']"
  by (simp add: fetchApprovedListings_query_def filters_eq filters_select filters_from)

lemma in_opt_single:
  "y \<in> set (case x of None \<Rightarrow> [] | Some v \<Rightarrow> if P v then [h v] else []) \<longleftrightarrow>
     (\<exists>v. x = Some v \<and> P v \<and> y = h v)"
  by (auto split: option.splits)

lemma price_min_filter:
  "Gte ''price'' v \<in> set (filters (fetchApprovedListings_query (Some f))) \<longleftrightarrow>
     priceMin f = Some v \<and> js_gt v (Num 0)"
  unfolding fetchApprovedListings_query_filters set_append Un_iff in_opt_single
  by auto

lemma price_max_filter:
  "Lte ''price'' w \<in> set (filters (fetchApprovedListings_query (Some f))) \<longleftrightarrow>
     priceMax f = Some w \<and> js_lt w (Num 10000000)"
  unfolding fetchApprovedListings_query_filters set_append Un_iff in_opt_single
  by auto

text \<open>
  Claim C4. In the query built by \<open>fetchApprovedListings\<close> the lower bound on \<open>price\<close> is
  present exactly when \<open>filters.priceMin\<close> is defined and \<open>> 0\<close>, and carries that value; the
  upper bound on \<open>price\<close> is present exactly when \<open>filters.priceMax\<close> is defined and
  \<open>< 10000000\<close>. With \<open>priceMax = 10000000\<close> no upper bound is applied at all; with
  \<open>priceMin = 100000\<close> and \<open>priceMax = 9999999\<close> both bounds are applied.
\<close>

theorem price_bounds_applied:
  "(Gte ''price'' v \<in> set (filters (fetchApprovedListings_query fa)) \<longleftrightarrow>
      (\<exists>f. fa = Some f \<and> priceMin f = Some v \<and> js_gt v (Num 0))) \<and>
   (Lte ''price'' w \<in> set (filters (fetchApprovedListings_query fa)) \<longleftrightarrow>
      (\<exists>f. fa = Some f \<and> priceMax f = Some w \<and> js_lt w (Num 10000000))) \<and>
   Lte ''price'' w \<notin>
      set (filters (fetchApprovedListings_query (Some (g\<lparr>priceMax := Some (Num 10000000)\<rparr>)))) \<and>
   Gte ''price'' (Num 100000) \<in>
      set (filters (fetchApprovedListings_query
             (Some (g\<lparr>priceMin := Some (Num 100000), priceMax := Some (Num 9999999)\<rparr>)))) \<and>
   Lte ''price'' (Num 9999999) \<in>
      set (filters (fetchApprovedListings_query
             (Some (g\<lparr>priceMin := Some (Num 100000), priceMax := Some (Num 9999999)\<rparr>))))"
proof (cases fa)
  case None
  then show ?thesis
    by (auto simp add: fetchApprovedListings_query_None price_min_filter price_max_filter
        js_gt_def)
next
  case (Some f)
  then show ?thesis
    by (auto simp add: price_min_filter price_max_filter js_gt_def)
qed

theorem price_bounds_applied_witness:
  "Lte ''price'' (Num 10000000) \<notin>
      set (filters (fetchApprovedListings_query
             (Some (no_filters\<lparr>priceMax := Some (Num 10000000)\<rparr>)))) \<and>
   filters (fetchApprovedListings_query
      (Some (no_filters\<lparr>priceMin := Some (Num 100000), priceMax := Some (Num 9999999)\<rparr>))) =
     [Eq ''status'' ''approved'', Gte ''price'' (Num 100000), Lte ''price'' (Num 9999999)]"
  using price_bounds_applied [of "Num 100000" "Some no_filters" "Num 10000000" no_filters]
  by (simp add: fetchApprovedListings_query_filters no_filters_def js_gt_def)

section \<open>Approved rows only\<close>

lemma map_rows_member:
  "l \<in> set (map_rows body rows) \<longleftrightarrow> (\<exists>i<length rows. body i (rows ! i) = Inr l)"
proof
  assume "l \<in> set (map_rows body rows)"
  then obtain i row where "(i, row) \<in> set (enumerate 0 rows)" "body i row = Inr l"
    unfolding map_rows_concat by (auto split: sum.splits)
  then show "\<exists>i<length rows. body i (rows ! i) = Inr l"
    by (auto simp: in_set_enumerate_eq)
next
  assume "\<exists>i<length rows. body i (rows ! i) = Inr l"
  then obtain i where i: "i < length rows" "body i (rows ! i) = Inr l" by blast
  then have "(i, rows ! i) \<in> set (enumerate 0 rows)"
    by (simp add: in_set_enumerate_eq)
  with i(2) show "l \<in> set (map_rows body rows)"
    unfolding map_rows_concat by (force split: sum.splits)
qed

lemma length_map_rows: "length (map_rows body rows) \<le> length rows"
  unfolding map_rows_def
  using length_filter_le [of "\<lambda>item. item \<noteq> None"
      "map (\<lambda>(i, row). case body i row of Inl e \<Rightarrow> None | Inr l \<Rightarrow> Some l) (enumerate 0 rows)"]
  by simp

lemma transform_listing_status:
  "transform_listing env i row = Inr l \<Longrightarrow> status l = or_str (ListingRow.status row) ''approved''"
  by (auto simp: transform_listing_def bind_exn_def Let_def split: sum.splits)

lemma transform_featured_fields:
  "transform_featured env i row = Inr l \<Longrightarrow>
     featured l \<and> createdAt l = or_str (created_at row) (clock env i)"
  by (auto simp: transform_featured_def bind_exn_def Let_def split: sum.splits)

text \<open>
  Claim C1. For every filter set the query sent to the store carries the equality filter
  \<open>status = approved\<close>, and if the store honours the equality filters of the query then every
  record \<open>fetchApprovedListings\<close> returns has \<open>status = "approved"\<close>. The module itself
  filters nothing by status: whatever row the store hands back and that normalizes is in
  the result, with the status the row had.
\<close>

theorem approved_status_from_query_filter:
  "Eq ''status'' ''approved'' \<in> set (filters (fetchApprovedListings_query fs)) \<and>
   ((\<forall>resp rows. execute env (fetchApprovedListings_query fs) = Inr resp \<and>
        data resp = Some rows \<longrightarrow> honours_eq (fetchApprovedListings_query fs) rows) \<longrightarrow>
    (\<exists>out. fetchApprovedListings env fs = Inr out \<and> (\<forall>l \<in> set out. status l = ''approved''))) \<and>
   (execute env (fetchApprovedListings_query fs) = Inr resp \<and> error resp = None \<and>
    data resp = Some rows \<and> i < length rows \<and> transform_listing env i (rows ! i) = Inr l \<longrightarrow>
    (\<exists>out. fetchApprovedListings env fs = Inr out \<and> l \<in> set out \<and>
           status l = or_str (ListingRow.status (rows ! i)) ''approved''))"
proof (intro conjI impI)
  let ?q = "fetchApprovedListings_query fs"
  show sent: "Eq ''status'' ''approved'' \<in> set (filters ?q)"
    by (cases fs) (simp_all add: fetchApprovedListings_query_None
        fetchApprovedListings_query_filters)
  {
    assume hon: "\<forall>resp rows. execute env ?q = Inr resp \<and> data resp = Some rows \<longrightarrow>
        honours_eq ?q rows"
    show "\<exists>out. fetchApprovedListings env fs = Inr out \<and> (\<forall>l \<in> set out. status l = ''approved'')"
    proof (cases "execute env ?q")
      case (Inl e)
      then show ?thesis
        by (simp add: fetchApprovedListings_def try_catch_def bind_exn_def)
    next
      case (Inr resp)
      show ?thesis
      proof (cases "error resp = None \<and> data resp \<noteq> None")
        case False
        with Inr show ?thesis
          by (auto simp add: fetchApprovedListings_def try_catch_def bind_exn_def)
      next
        case True
        then obtain rows where rows: "error resp = None" "data resp = Some rows" by auto
        from hon Inr rows have h: "honours_eq ?q rows" by blast
        have out: "fetchApprovedListings env fs = Inr (map_rows (transform_listing env) rows)"
          using Inr rows by (rule fetchApprovedListings_rows)
        have "status l = ''approved''" if "l \<in> set (map_rows (transform_listing env) rows)" for l
        proof -
          from that obtain i where i: "i < length rows"
            "transform_listing env i (rows ! i) = Inr l"
            unfolding map_rows_member by blast
          from i(1) have "rows ! i \<in> set rows" by simp
          with h sent have "text_column ''status'' (rows ! i) = Some ''approved''"
            unfolding honours_eq_def by fastforce
          then have "ListingRow.status (rows ! i) = Some ''approved''"
            by (simp add: text_column_def)
          with transform_listing_status [OF i(2)] show ?thesis by (simp add: or_str_def)
        qed
        with out show ?thesis by blast
      qed
    qed
  }
  {
    assume a: "execute env ?q = Inr resp \<and> error resp = None \<and>
      data resp = Some rows \<and> i < length rows \<and> transform_listing env i (rows ! i) = Inr l"
    then have out: "fetchApprovedListings env fs = Inr (map_rows (transform_listing env) rows)"
      by (intro fetchApprovedListings_rows) auto
    moreover from a have "l \<in> set (map_rows (transform_listing env) rows)"
      unfolding map_rows_member by blast
    moreover from a have "status l = or_str (ListingRow.status (rows ! i)) ''approved''"
      by (intro transform_listing_status) auto
    ultimately show "\<exists>out. fetchApprovedListings env fs = Inr out \<and> l \<in> set out \<and>
           status l = or_str (ListingRow.status (rows ! i)) ''approved''" by blast
  }
qed


theorem approved_status_from_query_filter_witness:
  "honours_eq (fetchApprovedListings_query None) [park_row, blank_row] \<and>
   (\<exists>out. fetchApprovedListings (rows_backend [park_row, blank_row]) None = Inr out \<and>
          length out = 2 \<and> (\<forall>l \<in> set out. status l = ''approved''))"
proof -
  let ?b = "rows_backend [park_row, blank_row]"
  have h: "honours_eq (fetchApprovedListings_query None) [park_row, blank_row]"
    by (simp add: honours_eq_def fetchApprovedListings_query_None text_column_def
        park_row_def blank_row_def)
  then have "\<forall>resp rows. execute ?b (fetchApprovedListings_query None) = Inr resp \<and>
      data resp = Some rows \<longrightarrow> honours_eq (fetchApprovedListings_query None) rows"
    by (auto simp: rows_backend_def)
  with approved_status_from_query_filter [of None ?b]
  obtain out where out: "fetchApprovedListings ?b None = Inr out"
    "\<forall>l \<in> set out. status l = ''approved''" by blast
  have "fetchApprovedListings ?b None = Inr (map_rows (transform_listing ?b) [park_row, blank_row])"
    by (rule fetchApprovedListings_rows [where resp = "\<lparr> data = Some [park_row, blank_row], error = None, count = None \<rparr>"])
      (simp_all add: rows_backend_def)
  moreover have "length (map_rows (transform_listing ?b) [park_row, blank_row]) = 2"
    by (simp add: map_rows_def transform_listing_def park_row_def blank_row_def
        rows_backend_def public_url_def bind_exn_def Let_def)
  ultimately have "length out = 2" using out(1) by simp
  with h out show ?thesis by blast
qed

section \<open>Rows whose normalization throws\<close>

text \<open>
  Claim C7. When the store answers \<open>fetchApprovedListings\<close> or
  \<open>fetchFeaturedApprovedListings\<close> with a batch of rows, the operation returns (it does not
  raise), and its result is, in the order of the rows, the record of every row whose own
  normalization succeeds; a row whose normalization throws contributes nothing and does not
  stop the rows after it.
\<close>

theorem failing_rows_dropped:
  "(execute env (fetchApprovedListings_query fs) = Inr resp \<and> error resp = None \<and>
    data resp = Some rows \<longrightarrow>
      fetchApprovedListings env fs =
        Inr (concat (map (\<lambda>(i, row). case transform_listing env i row of
                                         Inl e \<Rightarrow> [] | Inr l \<Rightarrow> [l])
                       (enumerate 0 rows)))) \<and>
   (execute env fetchFeaturedApprovedListings_query = Inr resp \<and> error resp = None \<and>
    data resp = Some rows \<longrightarrow>
      fetchFeaturedApprovedListings env =
        Inr (concat (map (\<lambda>(i, row). case transform_featured env i row of
                                         Inl e \<Rightarrow> [] | Inr l \<Rightarrow> [l])
                       (enumerate 0 rows))))"
  using fetchApprovedListings_rows [of env fs resp rows]
    fetchFeaturedApprovedListings_rows [of env resp rows]
  by (simp add: map_rows_concat)

theorem failing_rows_dropped_witness:
  "transform_listing (rows_backend [park_row, broken_row, blank_row]) 1 broken_row
     = Inl (Error ''no such object'') \<and>
   (\<exists>out. fetchApprovedListings (rows_backend [park_row, broken_row, blank_row]) None = Inr out \<and>
          map listing_id out = [''row-1'', ''row-0''])"
proof -
  let ?rows = "[park_row, broken_row, blank_row]"
  let ?b = "rows_backend ?rows"
  have e: "execute ?b (fetchApprovedListings_query None)
             = Inr \<lparr> data = Some ?rows, error = None, count = None \<rparr>"
    by (simp add: rows_backend_def)
  have t0: "\<exists>l. transform_listing ?b 0 park_row = Inr l \<and> listing_id l = ''row-1''"
    by (simp add: transform_listing_def park_row_def blank_row_def rows_backend_def
        public_url_def bind_exn_def Let_def)
  have t1: "transform_listing ?b 1 broken_row = Inl (Error ''no such object'')"
    by (simp add: transform_listing_def broken_row_def blank_row_def rows_backend_def
        public_url_def bind_exn_def)
  have t2: "\<exists>l. transform_listing ?b 2 blank_row = Inr l \<and> listing_id l = ''row-0''"
    by (simp add: transform_listing_def blank_row_def rows_backend_def bind_exn_def Let_def)
  from t0 obtain l0 where l0: "transform_listing ?b 0 park_row = Inr l0" "listing_id l0 = ''row-1''"
    by blast
  from t2 obtain l2 where l2: "transform_listing ?b 2 blank_row = Inr l2" "listing_id l2 = ''row-0''"
    by blast
  from failing_rows_dropped [of ?b None "\<lparr> data = Some ?rows, error = None, count = None \<rparr>" ?rows] e
  have "fetchApprovedListings ?b None =
        Inr (concat (map (\<lambda>(i, row). case transform_listing ?b i row of
                                         Inl e \<Rightarrow> [] | Inr l \<Rightarrow> [l])
                       (enumerate 0 ?rows)))"
    by simp
  also have "\<dots> = Inr [l0, l2]"
    using l0(1) t1 l2(1) by (simp add: numeral_2_eq_2)
  finally show ?thesis using t1 l0(2) l2(2) by simp
qed

section \<open>Promotion of the primary image\<close>

text \<open>
  Claim C3. Let the images of a row resolve to the URLs \<open>urls\<close>, and let \<open>k\<close> be the index
  \<open>findIndex\<close> resolves: the position of the first image flagged \<open>is_primary\<close>. If \<open>k > 0\<close>
  the normalized \<open>images\<close> is \<open>urls\<close> with the entry at \<open>k\<close> removed and put in front, the
  other entries keeping their order; if \<open>k = 0\<close> it is \<open>urls\<close> unchanged. Only this one
  entry moves, also when later images are flagged too.
\<close>

theorem primary_image_promoted:
  assumes "listing_images row = Some imgs"
    and "array_map (\<lambda>img. getPublicUrl env ''listing-images'' (storage_path img)) imgs = Inr urls"
    and "k < length imgs"
    and "is_primary (imgs ! k) = Some True"
    and "\<forall>j<k. is_primary (imgs ! j) \<noteq> Some True"
  shows "\<exists>l. transform_listing env i row = Inr l \<and> length urls = length imgs \<and>
             images l = (if 0 < k then urls ! k # take k urls @ drop (Suc k) urls else urls)"
proof -
  have len: "length urls = length imgs"
    using assms(2) by (rule array_map_length)
  have idx: "findIndex (\<lambda>img. is_primary img = Some True) imgs = int k"
    using assms(3-5) by (intro findIndex_first) auto
  from assms(3) have ne: "imgs \<noteq> []" by (cases imgs) simp_all
  with len have ne': "urls \<noteq> []" by auto
  show ?thesis
    using assms(1,2) len idx ne ne'
    by (simp add: transform_listing_def bind_exn_def Let_def unshift_def splice1_def)
qed

theorem primary_image_promoted_witness:
  "\<exists>l. transform_listing (rows_backend []) 0 park_row = Inr l \<and>
       images l = [''https://cdn.example/listing-images/c.jpg'',
                   ''https://cdn.example/listing-images/a.jpg'',
                   ''https://cdn.example/listing-images/b.jpg'',
                   ''https://cdn.example/listing-images/d.jpg'']"
proof -
  let ?imgs = "[\<lparr> storage_path = ''a.jpg'', is_primary = Some False \<rparr>,
                \<lparr> storage_path = ''b.jpg'', is_primary = None \<rparr>,
                \<lparr> storage_path = ''c.jpg'', is_primary = Some True \<rparr>,
                \<lparr> storage_path = ''d.jpg'', is_primary = Some True \<rparr>]"
  let ?urls = "[''https://cdn.example/listing-images/a.jpg'',
                ''https://cdn.example/listing-images/b.jpg'',
                ''https://cdn.example/listing-images/c.jpg'',
                ''https://cdn.example/listing-images/d.jpg'']"
  have a1: "listing_images park_row = Some ?imgs"
    by (simp add: park_row_def)
  have a2: "array_map (\<lambda>img. getPublicUrl (rows_backend []) ''listing-images'' (storage_path img))
              ?imgs = Inr ?urls"
    by (simp add: rows_backend_def public_url_def)
  have a3: "2 < length ?imgs" by simp
  have a4: "is_primary (?imgs ! 2) = Some True" by simp
  have a5: "\<forall>j<2. is_primary (?imgs ! j) \<noteq> Some True"
    by (simp add: less_Suc_eq numeral_2_eq_2)
  from primary_image_promoted [OF a1 a2 a3 a4 a5, of 0] show ?thesis
    by (simp add: numeral_2_eq_2)
qed

section \<open>The featured listings\<close>

lemma or_str_truthy: "truthy_str v \<Longrightarrow> v = Some (or_str v d)"
  by (auto simp: truthy_str_def or_str_def split: option.splits)

lemma featured_successes_sorted:
  assumes "sorted_wrt (\<lambda>a b. nulls_first ge (created_at a) (created_at b)) rows"
    and "\<forall>r \<in> set rows. truthy_str (created_at r)"
  shows "sorted_wrt (\<lambda>a b. ge (createdAt a) (createdAt b))
           (concat (map (\<lambda>(i, row). case transform_featured env i row of
                                        Inl e \<Rightarrow> [] | Inr l \<Rightarrow> [l])
                      (enumerate n rows)))"
  using assms
proof (induction rows arbitrary: n)
  case Nil
  then show ?case by simp
next
  case (Cons r rs)
  let ?F = "\<lambda>(i, row). case transform_featured env i row of Inl e \<Rightarrow> [] | Inr l \<Rightarrow> [l]"
  from Cons.prems have tail: "sorted_wrt (\<lambda>a b. ge (createdAt a) (createdAt b))
      (concat (map ?F (enumerate (Suc n) rs)))"
    by (intro Cons.IH) auto
  show ?case
  proof (cases "transform_featured env n r")
    case (Inl e)
    with tail show ?thesis by simp
  next
    case (Inr l)
    have "ge (createdAt l) (createdAt l')"
      if "l' \<in> set (concat (map ?F (enumerate (Suc n) rs)))" for l'
    proof -
      from that obtain i r' where ir: "(i, r') \<in> set (enumerate (Suc n) rs)"
        "transform_featured env i r' = Inr l'"
        by (auto split: sum.splits)
      then have mem: "r' \<in> set rs" by (auto simp: in_set_enumerate_eq)
      with Cons.prems(1) have nf: "nulls_first ge (created_at r) (created_at r')" by simp
      from Cons.prems(2) mem have t: "truthy_str (created_at r)" "truthy_str (created_at r')"
        by simp_all
      from transform_featured_fields [OF Inr] or_str_truthy [OF t(1)]
      have c: "created_at r = Some (createdAt l)" by simp
      from transform_featured_fields [OF ir(2)] or_str_truthy [OF t(2)]
      have c': "created_at r' = Some (createdAt l')" by simp
      from nf c c' show ?thesis by (simp add: nulls_first_def)
    qed
    with tail Inr show ?thesis by simp
  qed
qed

text \<open>
  Claim C5, as amended. \<open>fetchFeaturedApprovedListings\<close> asks the store for the approved
  rows sorted by \<open>created_at\<close> descending with limit 3, and every record of its result has
  \<open>featured = true\<close>. If the store honours the limit, the result has at most 3 records. If
  the store returns its rows in descending order of \<open>created_at\<close> and every returned row
  has a non-empty \<open>created_at\<close>, the result is ordered by \<open>createdAt\<close> descending. (A row
  without \<open>created_at\<close> gets the current time as its \<open>createdAt\<close>, which need not fit the
  order; the order \<open>ge\<close> on timestamps is arbitrary.)
\<close>

theorem featured_limit_flag_order:
  "ordering fetchFeaturedApprovedListings_query = Some (''created_at'', False) \<and>
   row_limit fetchFeaturedApprovedListings_query = Some 3 \<and>
   Eq ''status'' ''approved'' \<in> set (filters fetchFeaturedApprovedListings_query) \<and>
   (\<exists>out. fetchFeaturedApprovedListings env = Inr out \<and>
      (\<forall>l \<in> set out. featured l) \<and>
      ((\<forall>resp rows. execute env fetchFeaturedApprovedListings_query = Inr resp \<and>
           data resp = Some rows \<longrightarrow> honours_limit fetchFeaturedApprovedListings_query rows)
         \<longrightarrow> length out \<le> 3) \<and>
      ((\<forall>resp rows. execute env fetchFeaturedApprovedListings_query = Inr resp \<and>
           data resp = Some rows \<longrightarrow>
             created_at_descending ge rows \<and> (\<forall>r \<in> set rows. truthy_str (created_at r)))
         \<longrightarrow> createdAt_descending ge out))"
proof (intro conjI)
  let ?q = fetchFeaturedApprovedListings_query
  show "ordering ?q = Some (''created_at'', False)"
    by (simp add: fetchFeaturedApprovedListings_query_def limit_def order_by_def)
  show lim: "row_limit ?q = Some 3"
    by (simp add: fetchFeaturedApprovedListings_query_def limit_def)
  show "Eq ''status'' ''approved'' \<in> set (filters ?q)"
    by (simp add: fetchFeaturedApprovedListings_query_def limit_def order_by_def eq_def
        select_def from_table_def)
  let ?P = "\<lambda>out. (\<forall>l \<in> set out. featured l) \<and>
      ((\<forall>resp rows. execute env ?q = Inr resp \<and> data resp = Some rows \<longrightarrow>
           honours_limit ?q rows) \<longrightarrow> length out \<le> 3) \<and>
      ((\<forall>resp rows. execute env ?q = Inr resp \<and> data resp = Some rows \<longrightarrow>
           created_at_descending ge rows \<and> (\<forall>r \<in> set rows. truthy_str (created_at r)))
         \<longrightarrow> createdAt_descending ge out)"
  have empty: "?P []" by (simp add: createdAt_descending_def)
  show "\<exists>out. fetchFeaturedApprovedListings env = Inr out \<and> ?P out"
  proof (cases "execute env ?q")
    case (Inl e)
    then have "fetchFeaturedApprovedListings env = Inr []"
      by (simp add: fetchFeaturedApprovedListings_def try_catch_def bind_exn_def)
    with empty show ?thesis by blast
  next
    case (Inr resp)
    show ?thesis
    proof (cases "error resp = None \<and> data resp \<noteq> None")
      case False
      with Inr have "fetchFeaturedApprovedListings env = Inr []"
        by (auto simp add: fetchFeaturedApprovedListings_def try_catch_def bind_exn_def)
      with empty show ?thesis by blast
    next
      case True
      then obtain rows where rows: "error resp = None" "data resp = Some rows" by auto
      let ?out = "map_rows (transform_featured env) rows"
      have out: "fetchFeaturedApprovedListings env = Inr ?out"
        using Inr rows by (rule fetchFeaturedApprovedListings_rows)
      have flag: "\<forall>l \<in> set ?out. featured l"
        using transform_featured_fields by (auto simp: map_rows_member)
      have len: "length ?out \<le> 3"
        if "\<forall>resp rows. execute env ?q = Inr resp \<and> data resp = Some rows \<longrightarrow>
              honours_limit ?q rows"
      proof -
        from that Inr rows have "honours_limit ?q rows" by blast
        with lim have "length rows \<le> 3" by (simp add: honours_limit_def)
        with length_map_rows [of "transform_featured env" rows] show ?thesis by simp
      qed
      have ord: "createdAt_descending ge ?out"
        if "\<forall>resp rows. execute env ?q = Inr resp \<and> data resp = Some rows \<longrightarrow>
              created_at_descending ge rows \<and> (\<forall>r \<in> set rows. truthy_str (created_at r))"
      proof -
        from that Inr rows have "created_at_descending ge rows"
          "\<forall>r \<in> set rows. truthy_str (created_at r)" by blast+
        then show ?thesis
          unfolding createdAt_descending_def created_at_descending_def map_rows_concat
          by (rule featured_successes_sorted)
      qed
      from out flag len ord show ?thesis by blast
    qed
  qed
qed

theorem featured_limit_flag_order_witness:
  "honours_limit fetchFeaturedApprovedListings_query dated_rows \<and>
   created_at_descending str_ge dated_rows \<and>
   list_all (\<lambda>r. truthy_str (created_at r)) dated_rows \<and>
   (\<exists>out. fetchFeaturedApprovedListings (rows_backend dated_rows) = Inr out \<and>
      length out = 2 \<and>
      (\<forall>l \<in> set out. featured l) \<and> length out \<le> 3 \<and> createdAt_descending str_ge out)"
proof -
  let ?q = fetchFeaturedApprovedListings_query
  let ?b = "rows_backend dated_rows"
  have h1: "honours_limit ?q dated_rows"
    by (simp add: honours_limit_def fetchFeaturedApprovedListings_query_def limit_def
        dated_rows_def)
  have h2: "created_at_descending str_ge dated_rows"
    by (simp add: created_at_descending_def dated_rows_def park_row_def blank_row_def
        nulls_first_def)
  have h3: "\<forall>r \<in> set dated_rows. truthy_str (created_at r)"
    by (simp add: dated_rows_def park_row_def blank_row_def truthy_str_def)
  have e: "execute ?b ?q = Inr resp \<and> data resp = Some rows \<longrightarrow>
      rows = dated_rows" for resp rows
    by (auto simp: rows_backend_def)
  from featured_limit_flag_order [of ?b str_ge] h1 h2 h3 e
  obtain out where out: "fetchFeaturedApprovedListings ?b = Inr out"
    "\<forall>l \<in> set out. featured l" "length out \<le> 3" "createdAt_descending str_ge out"
    by (auto simp del: str_ge.simps)
  have "fetchFeaturedApprovedListings ?b = Inr (map_rows (transform_featured ?b) dated_rows)"
    by (rule fetchFeaturedApprovedListings_rows
        [where resp = "\<lparr> data = Some dated_rows, error = None, count = None \<rparr>"])
      (simp_all add: rows_backend_def)
  moreover have "length (map_rows (transform_featured ?b) dated_rows) = 2"
    by (simp add: map_rows_def transform_featured_def dated_rows_def park_row_def blank_row_def
        rows_backend_def public_url_def bind_exn_def Let_def)
  ultimately have "length out = 2" using out(1) by simp
  with h1 h2 h3 out show ?thesis by (auto simp add: list_all_iff simp del: str_ge.simps)
qed

text \<open>
  The claim as stated, without the condition on \<open>created_at\<close>, fails: the store returns two
  approved rows that have no \<open>created_at\<close>, which respects the equality filter, the limit
  and the descending order; the clock advances by a millisecond between the two rows, and
  the result is in ascending order of \<open>createdAt\<close>.
\<close>

theorem featured_order_counterexample:
  "honours_eq fetchFeaturedApprovedListings_query undated_rows \<and>
   honours_limit fetchFeaturedApprovedListings_query undated_rows \<and>
   created_at_descending str_ge undated_rows \<and>
   fetchFeaturedApprovedListings (rows_backend undated_rows) = Inr undated_result \<and>
   \<not> createdAt_descending str_ge undated_result"
proof (intro conjI)
  let ?q = fetchFeaturedApprovedListings_query
  show "honours_eq ?q undated_rows"
    by (simp add: honours_eq_def fetchFeaturedApprovedListings_query_def limit_def order_by_def
        eq_def select_def from_table_def undated_rows_def blank_row_def text_column_def)
  show "honours_limit ?q undated_rows"
    by (simp add: honours_limit_def fetchFeaturedApprovedListings_query_def limit_def
        undated_rows_def)
  show "created_at_descending str_ge undated_rows"
    by (simp add: created_at_descending_def undated_rows_def blank_row_def nulls_first_def)
  show "fetchFeaturedApprovedListings (rows_backend undated_rows) = Inr undated_result"
    by (simp add: fetchFeaturedApprovedListings_def try_catch_def bind_exn_def rows_backend_def
        undated_rows_def undated_result_def map_rows_def transform_featured_def blank_row_def
        or_str_def or_num_def Let_def)
  show "\<not> createdAt_descending str_ge undated_result"
    by (simp add: createdAt_descending_def undated_result_def)
qed

section \<open>The search filter\<close>

text \<open>
  The argument of \<open>.or(...)\<close> in the built query: present exactly when \<open>filters.search\<close> is
  a non-empty string whose trimmed form is non-empty, and then the four \<open>ilike\<close> conditions
  on \<open>title\<close>, \<open>description\<close>, \<open>city\<close> and \<open>state\<close> joined by commas, with the trimmed term
  pasted in unquoted. For a term without a comma its comma-separated conditions are the
  four of the specification.
\<close>

lemma or_strings_gte:
  "concat (map (\<lambda>f. case f of Or s \<Rightarrow> [s] | _ \<Rightarrow> [])
     (case x of None \<Rightarrow> [] | Some v \<Rightarrow> if P v then [Gte c v] else [])) = []"
  by (cases x) simp_all

lemma or_strings_lte:
  "concat (map (\<lambda>f. case f of Or s \<Rightarrow> [s] | _ \<Rightarrow> [])
     (case x of None \<Rightarrow> [] | Some v \<Rightarrow> if P v then [Lte c v] else [])) = []"
  by (cases x) simp_all

lemma or_strings_eq:
  "concat (map (\<lambda>f. case f of Or s \<Rightarrow> [s] | _ \<Rightarrow> [])
     (case x of None \<Rightarrow> [] | Some v \<Rightarrow> if P v then [Eq c v] else [])) = []"
  by (cases x) simp_all

lemma or_strings_or:
  "concat (map (\<lambda>f. case f of Or s \<Rightarrow> [s] | _ \<Rightarrow> [])
     (case x of None \<Rightarrow> [] | Some v \<Rightarrow> if P v then [Or (h v)] else [])) =
   (case x of None \<Rightarrow> [] | Some v \<Rightarrow> if P v then [h v] else [])"
  by (simp split: option.splits)

lemma or_arguments_search:
  "or_arguments (fetchApprovedListings_query (Some f)) =
     (case search f of
        None \<Rightarrow> []
      | Some s \<Rightarrow>
          if s \<noteq> [] \<and> trim s \<noteq> [] then
            [''title.ilike.%'' @ trim s @ ''%,description.ilike.%'' @ trim s @
             ''%,city.ilike.%'' @ trim s @ ''%,state.ilike.%'' @ trim s @ ''%'']
          else [])"
  unfolding or_arguments_def fetchApprovedListings_query_filters map_append concat_append
    or_strings_gte or_strings_lte or_strings_eq or_strings_or
  by simp

lemma search_filter_applied_iff:
  "or_arguments (fetchApprovedListings_query fa) \<noteq> [] \<longleftrightarrow>
     (\<exists>f s. fa = Some f \<and> search f = Some s \<and> s \<noteq> [] \<and> trim s \<noteq> [])"
proof (cases fa)
  case None
  then show ?thesis by (simp add: or_arguments_def fetchApprovedListings_query_None)
next
  case (Some f)
  then show ?thesis by (auto simp add: or_arguments_search split: option.splits)
qed

lemma split_on_absent: "c \<notin> set xs \<Longrightarrow> split_on c xs = [xs]"
  by (induction xs) auto

lemma split_on_first: "c \<notin> set xs \<Longrightarrow> split_on c (xs @ c # ys) = xs # split_on c ys"
  by (induction xs) auto

lemma search_conditions_without_comma:
  assumes "CHR '','' \<notin> set t"
  shows "split_on CHR '','' (''title.ilike.%'' @ t @ ''%,description.ilike.%'' @ t @
             ''%,city.ilike.%'' @ t @ ''%,state.ilike.%'' @ t @ ''%'') =
         spec_search_conditions t"
proof -
  have p: "CHR '','' \<notin> set (pre @ t @ ''%'')" if "CHR '','' \<notin> set pre" for pre
    using assms that by simp
  have 1: "split_on CHR '','' (''state.ilike.%'' @ t @ ''%'') = [''state.ilike.%'' @ t @ ''%'']"
    by (rule split_on_absent) (simp add: assms)
  have 2: "split_on CHR '','' ((''city.ilike.%'' @ t @ ''%'') @ CHR '','' # (''state.ilike.%'' @ t @ ''%''))
      = (''city.ilike.%'' @ t @ ''%'') # [''state.ilike.%'' @ t @ ''%'']"
    unfolding 1 [symmetric] by (rule split_on_first) (simp add: assms)
  have 3: "split_on CHR '','' ((''description.ilike.%'' @ t @ ''%'') @ CHR '','' #
        ((''city.ilike.%'' @ t @ ''%'') @ CHR '','' # (''state.ilike.%'' @ t @ ''%'')))
      = (''description.ilike.%'' @ t @ ''%'') #
        (''city.ilike.%'' @ t @ ''%'') # [''state.ilike.%'' @ t @ ''%'']"
    unfolding 2 [symmetric] by (rule split_on_first) (simp add: assms)
  have 4: "split_on CHR '','' ((''title.ilike.%'' @ t @ ''%'') @ CHR '','' #
        ((''description.ilike.%'' @ t @ ''%'') @ CHR '','' #
        ((''city.ilike.%'' @ t @ ''%'') @ CHR '','' # (''state.ilike.%'' @ t @ ''%''))))
      = (''title.ilike.%'' @ t @ ''%'') # (''description.ilike.%'' @ t @ ''%'') #
        (''city.ilike.%'' @ t @ ''%'') # [''state.ilike.%'' @ t @ ''%'']"
    unfolding 3 [symmetric] by (rule split_on_first) (simp add: assms)
  from 4 show ?thesis by (simp add: spec_search_conditions_def)
qed

text \<open>
  Claim C6 at the input \<open>search = "Austin, TX"\<close>. The filter is applied, but the term is
  pasted unquoted into the comma-separated list, so the list has eight members, four of
  them the fragment \<open>" TX%"\<close>, and is not the one pattern \<open>%Austin, TX%\<close> on each of the four
  columns that the claim describes.
\<close>

theorem search_term_with_comma:
  "or_arguments (fetchApprovedListings_query (Some (no_filters\<lparr>search := Some ''Austin, TX''\<rparr>))) =
     [''title.ilike.%Austin, TX%,description.ilike.%Austin, TX%,'' @
      ''city.ilike.%Austin, TX%,state.ilike.%Austin, TX%''] \<and>
   map (split_on CHR '','')
     (or_arguments (fetchApprovedListings_query
        (Some (no_filters\<lparr>search := Some ''Austin, TX''\<rparr>)))) =
     [[''title.ilike.%Austin'', '' TX%'', ''description.ilike.%Austin'', '' TX%'',
       ''city.ilike.%Austin'', '' TX%'', ''state.ilike.%Austin'', '' TX%'']] \<and>
   map (split_on CHR '','')
     (or_arguments (fetchApprovedListings_query
        (Some (no_filters\<lparr>search := Some ''Austin, TX''\<rparr>)))) \<noteq>
     [spec_search_conditions ''Austin, TX'']"
proof -
  have t: "trim ''Austin, TX'' = ''Austin, TX''"
    by (simp add: trim_def is_space_def)
  show ?thesis
    by (simp add: or_arguments_search no_filters_def t spec_search_conditions_def)
qed

end
